theory Spec2Isabelle
  imports Complex_Main
begin

section \<open>Python strings\<close>

text \<open>
  A Python \<open>str\<close> is modelled as a \<open>string\<close> whose characters are the code points
  0 to 255; the character classes below are those of CPython on that range
  (\<open>str.isspace\<close>, and the Unicode classes \<open>\s\<close>, \<open>\d\<close>, \<open>\w\<close> of the \<open>re\<close> module).
\<close>

definition ord :: "char \<Rightarrow> nat" where
  "ord c = of_char c"

definition newline :: char where
  "newline = CHR 0x0A"

definition isspace :: "char \<Rightarrow> bool" where
  "isspace c = (let n = ord c in (9 \<le> n \<and> n \<le> 13) \<or> (28 \<le> n \<and> n \<le> 32) \<or> n = 133 \<or> n = 160)"

definition isdecimal :: "char \<Rightarrow> bool" where
  "isdecimal c = (let n = ord c in 48 \<le> n \<and> n \<le> 57)"

definition isword :: "char \<Rightarrow> bool" where
  "isword c = (let n = ord c in
     (48 \<le> n \<and> n \<le> 57) \<or> (65 \<le> n \<and> n \<le> 90) \<or> n = 95 \<or> (97 \<le> n \<and> n \<le> 122) \<or>
     n = 170 \<or> n = 178 \<or> n = 179 \<or> n = 181 \<or> n = 185 \<or> n = 186 \<or>
     (188 \<le> n \<and> n \<le> 190) \<or> (192 \<le> n \<and> n \<le> 214) \<or> (216 \<le> n \<and> n \<le> 246) \<or>
     (248 \<le> n \<and> n \<le> 255))"

text \<open>\<open>str.lower\<close> on one character.\<close>

definition lower_char :: "char \<Rightarrow> char" where
  "lower_char c = (let n = ord c in
     if (65 \<le> n \<and> n \<le> 90) \<or> (192 \<le> n \<and> n \<le> 214) \<or> (216 \<le> n \<and> n \<le> 222)
     then char_of (n + 32) else c)"

definition lower :: "string \<Rightarrow> string" where
  "lower s = map lower_char s"

definition lstrip :: "string \<Rightarrow> string" where
  "lstrip s = dropWhile isspace s"

definition rstrip :: "string \<Rightarrow> string" where
  "rstrip s = rev (dropWhile isspace (rev s))"

definition strip :: "string \<Rightarrow> string" where
  "strip s = rstrip (lstrip s)"

text \<open>\<open>s.split(sep)\<close> for a one-character separator, and \<open>sep.join(xs)\<close>.\<close>

fun split_on :: "char \<Rightarrow> string \<Rightarrow> string list" where
  "split_on sep [] = [[]]"
| "split_on sep (c # cs) =
     (if c = sep then [] # split_on sep cs
      else (case split_on sep cs of
              [] \<Rightarrow> [[c]]
            | l # ls \<Rightarrow> (c # l) # ls))"

fun join_with :: "char \<Rightarrow> string list \<Rightarrow> string" where
  "join_with sep [] = []"
| "join_with sep [l] = l"
| "join_with sep (l # m # ls) = l @ sep # join_with sep (m # ls)"

definition startswith :: "string \<Rightarrow> string \<Rightarrow> bool" where
  "startswith s pre = (take (length pre) s = pre)"

text \<open>\<open>str(n)\<close> for a non-negative integer.\<close>

fun str_nat :: "nat \<Rightarrow> string" where
  "str_nat n = (if n < 10 then [char_of (48 + n)]
                else str_nat (n div 10) @ [char_of (48 + n mod 10)])"

declare str_nat.simps [simp del]

section \<open>Regular expressions of the \<open>re\<close> module\<close>

text \<open>
  The fragment of the pattern language that the program uses: literals, \<open>.\<close>, character
  sets (possibly negated) over characters and the classes \<open>\s\<close>, \<open>\d\<close>, \<open>\w\<close>, the
  anchors \<open>^\<close> and \<open>$\<close>, concatenation, alternation, and the greedy \<open>*\<close>, \<open>+\<close>, \<open>?\<close>.
  A matcher state is the character before the current position (\<open>None\<close> at the start of
  the subject) and the rest of the subject. \<open>rmatch\<close> lists the states a pattern can end
  in, in the order the backtracking matcher tries them; its first argument is the
  \<open>re.MULTILINE\<close> flag.
\<close>

datatype citem = CChar char | CSpace | CDigit | CWord

fun citem_has :: "citem \<Rightarrow> char \<Rightarrow> bool" where
  "citem_has (CChar a) c = (a = c)"
| "citem_has CSpace c = isspace c"
| "citem_has CDigit c = isdecimal c"
| "citem_has CWord c = isword c"

datatype regex =
    Eps
  | Lit char
  | Dot
  | Set bool "citem list"
  | Bol
  | Eol
  | Seq regex regex
  | Alt regex regex
  | Star regex
  | Plus regex
  | Opt regex

type_synonym mstate = "char option \<times> string"

definition in_set :: "bool \<Rightarrow> citem list \<Rightarrow> char \<Rightarrow> bool" where
  "in_set negated items c = (list_ex (\<lambda>i. citem_has i c) items \<noteq> negated)"

fun step_char :: "(char \<Rightarrow> bool) \<Rightarrow> mstate \<Rightarrow> mstate list" where
  "step_char P (p, []) = []"
| "step_char P (p, c # cs) = (if P c then [(Some c, cs)] else [])"

primrec star_iter :: "(mstate \<Rightarrow> mstate list) \<Rightarrow> nat \<Rightarrow> mstate \<Rightarrow> mstate list" where
  "star_iter f 0 st = [st]"
| "star_iter f (Suc n) st =
     concat (map (star_iter f n) (filter (\<lambda>t. length (snd t) < length (snd st)) (f st))) @ [st]"

primrec rmatch :: "bool \<Rightarrow> regex \<Rightarrow> mstate \<Rightarrow> mstate list" where
  "rmatch ml Eps st = [st]"
| "rmatch ml (Lit a) st = step_char (\<lambda>c. c = a) st"
| "rmatch ml Dot st = step_char (\<lambda>c. c \<noteq> newline) st"
| "rmatch ml (Set negated items) st = step_char (in_set negated items) st"
| "rmatch ml Bol st =
     (if fst st = None \<or> (ml \<and> fst st = Some newline) then [st] else [])"
| "rmatch ml Eol st =
     (if snd st = [] \<or> snd st = [newline] \<or> (ml \<and> take 1 (snd st) = [newline])
      then [st] else [])"
| "rmatch ml (Seq r1 r2) st = concat (map (rmatch ml r2) (rmatch ml r1 st))"
| "rmatch ml (Alt r1 r2) st = rmatch ml r1 st @ rmatch ml r2 st"
| "rmatch ml (Star r) st = star_iter (rmatch ml r) (length (snd st)) st"
| "rmatch ml (Plus r) st =
     concat (map (\<lambda>t. star_iter (rmatch ml r) (length (snd t)) t) (rmatch ml r st))"
| "rmatch ml (Opt r) st = rmatch ml r st @ [st]"

text \<open>\<open>re.search(pattern, s)\<close> finds a match starting anywhere; \<open>re.match\<close> only at 0.\<close>

fun search_from :: "bool \<Rightarrow> regex \<Rightarrow> char option \<Rightarrow> string \<Rightarrow> bool" where
  "search_from ml r p [] = (rmatch ml r (p, []) \<noteq> [])"
| "search_from ml r p (c # cs) =
     (rmatch ml r (p, c # cs) \<noteq> [] \<or> search_from ml r (Some c) cs)"

definition re_search :: "regex \<Rightarrow> string \<Rightarrow> bool" where
  "re_search r s = search_from False r None s"

definition re_search_multiline :: "regex \<Rightarrow> string \<Rightarrow> bool" where
  "re_search_multiline r s = search_from True r None s"

definition re_match :: "regex \<Rightarrow> string \<Rightarrow> bool" where
  "re_match r s = (rmatch False r (None, s) \<noteq> [])"

text \<open>
  \<open>re.sub(pattern, repl, s)\<close>. The pattern is given as the list of its top-level
  segments, so that a group that is a whole segment can be referred to from the
  replacement: \<open>RGroup k\<close> is the text matched by segment \<open>k\<close> (counted from 0) in the
  match the backtracking matcher finds first.
\<close>

fun rmatch_segs :: "bool \<Rightarrow> regex list \<Rightarrow> mstate \<Rightarrow> mstate list list" where
  "rmatch_segs ml [] st = [[]]"
| "rmatch_segs ml (r # rs) st =
     concat (map (\<lambda>t. map ((#) t) (rmatch_segs ml rs t)) (rmatch ml r st))"

fun seg_texts :: "mstate \<Rightarrow> mstate list \<Rightarrow> string list" where
  "seg_texts st [] = []"
| "seg_texts st (t # ts) =
     take (length (snd st) - length (snd t)) (snd st) # seg_texts t ts"

datatype ritem = RText string | RGroup nat

fun expand :: "ritem list \<Rightarrow> string list \<Rightarrow> string" where
  "expand [] gs = []"
| "expand (RText s # is) gs = s @ expand is gs"
| "expand (RGroup k # is) gs = (if k < length gs then gs ! k else []) @ expand is gs"

definition match_end :: "mstate \<Rightarrow> mstate list \<Rightarrow> mstate" where
  "match_end st bs = (if bs = [] then st else last bs)"

function sub_from :: "regex list \<Rightarrow> ritem list \<Rightarrow> char option \<Rightarrow> string \<Rightarrow> string" where
  "sub_from segs tpl p s =
     (case rmatch_segs False segs (p, s) of
        [] \<Rightarrow> (case s of [] \<Rightarrow> [] | c # cs \<Rightarrow> c # sub_from segs tpl (Some c) cs)
      | bs # _ \<Rightarrow>
          (if length (snd (match_end (p, s) bs)) < length s
           then expand tpl (seg_texts (p, s) bs)
                @ sub_from segs tpl (fst (match_end (p, s) bs)) (snd (match_end (p, s) bs))
           else (case s of
                   [] \<Rightarrow> expand tpl (seg_texts (p, s) bs)
                 | c # cs \<Rightarrow> expand tpl (seg_texts (p, s) bs) @ c # sub_from segs tpl (Some c) cs)))"
  by pat_completeness auto
termination
  by (relation "measure (\<lambda>(segs, tpl, p, s). length s)") (auto simp: case_prod_beta)

declare sub_from.simps [simp del]

definition re_sub :: "regex list \<Rightarrow> ritem list \<Rightarrow> string \<Rightarrow> string" where
  "re_sub segs tpl s = sub_from segs tpl None s"

text \<open>Builders for literal words, sequences and alternatives.\<close>

fun Str :: "string \<Rightarrow> regex" where
  "Str [] = Eps"
| "Str (c # cs) = Seq (Lit c) (Str cs)"

fun Seqs :: "regex list \<Rightarrow> regex" where
  "Seqs [] = Eps"
| "Seqs [r] = r"
| "Seqs (r # rs) = Seq r (Seqs rs)"

fun Alts :: "regex list \<Rightarrow> regex" where
  "Alts [] = Set False []"
| "Alts [r] = r"
| "Alts (r # rs) = Alt r (Alts rs)"

definition Words :: "string list \<Rightarrow> regex" where
  "Words ws = Alts (map Str ws)"

definition Space :: regex where
  "Space = Set False [CSpace]"

definition Word :: regex where
  "Word = Set False [CWord]"

section \<open>Paths\<close>

text \<open>
  \<open>pathlib.Path\<close> on a POSIX system, as of CPython 3.11: the parts of a path, its final
  component, the suffix of that component and the string of the normalised path.
\<close>

definition path_root :: "string \<Rightarrow> string" where
  "path_root p =
     (if startswith p ''//'' \<and> \<not> startswith p ''///'' then ''//''
      else if startswith p ''/'' then ''/'' else [])"

definition path_tail :: "string \<Rightarrow> string list" where
  "path_tail p = filter (\<lambda>x. x \<noteq> [] \<and> x \<noteq> ''.'') (split_on CHR ''/'' p)"

definition path_parts :: "string \<Rightarrow> string list" where
  "path_parts p = (if path_root p = [] then [] else [path_root p]) @ path_tail p"

definition path_name :: "string \<Rightarrow> string" where
  "path_name p = (if path_tail p = [] then [] else last (path_tail p))"

fun rfind :: "char \<Rightarrow> string \<Rightarrow> nat option" where
  "rfind c [] = None"
| "rfind c (x # xs) =
     (case rfind c xs of
        Some i \<Rightarrow> Some (Suc i)
      | None \<Rightarrow> if x = c then Some 0 else None)"

definition path_suffix :: "string \<Rightarrow> string" where
  "path_suffix p =
     (let name = path_name p in
      case rfind CHR ''.'' name of
        None \<Rightarrow> []
      | Some i \<Rightarrow> if 0 < i \<and> i + 1 < length name then drop i name else [])"

definition path_str :: "string \<Rightarrow> string" where
  "path_str p =
     (if path_root p = [] \<and> path_tail p = [] then ''.''
      else path_root p @ join_with CHR ''/'' (path_tail p))"

section \<open>LanguageDetector\<close>

definition extension_table :: "(string \<times> string) list" where
  "extension_table =
     [(''.py'', ''python''),
      (''.js'', ''javascript''),
      (''.jsx'', ''javascript''),
      (''.ts'', ''typescript''),
      (''.tsx'', ''typescript''),
      (''.go'', ''go''),
      (''.rs'', ''rust''),
      (''.java'', ''java''),
      (''.cpp'', ''cpp''),
      (''.cc'', ''cpp''),
      (''.cxx'', ''cpp''),
      (''.c'', ''c''),
      (''.h'', ''c''),
      (''.hpp'', ''cpp'')]"

definition extension_map :: "string \<rightharpoonup> string" where
  "extension_map = map_of extension_table"

text \<open>The pattern \<open>^\s*word\s+\<close>.\<close>

definition line_keyword :: "string \<Rightarrow> regex" where
  "line_keyword w = Seqs [Bol, Star Space, Str w, Plus Space]"

definition content_patterns :: "(string \<times> regex list) list" where
  "content_patterns =
     [(''python'',
         [line_keyword ''def'', line_keyword ''class'', line_keyword ''import'',
          Seqs [Bol, Star Space, Str ''from'', Plus Space, Plus Dot, Str ''import'']]),
      (''javascript'',
         [line_keyword ''function'', line_keyword ''const'', line_keyword ''let'',
          Str ''require('']),
      (''go'',
         [line_keyword ''package'', line_keyword ''func'',
          Seqs [Bol, Star Space, Str ''import'', Plus Space, Lit CHR ''(''],
          line_keyword ''var'']),
      (''rust'',
         [line_keyword ''fn'', line_keyword ''pub'', line_keyword ''use'',
          line_keyword ''struct'']),
      (''java'',
         [Seqs [Bol, Star Space, Str ''public'', Plus Space, Str ''class''],
          line_keyword ''package'', line_keyword ''import''])]"

definition count_matches :: "regex list \<Rightarrow> string \<Rightarrow> nat" where
  "count_matches patterns content =
     length (filter (\<lambda>pattern. re_search_multiline pattern content) patterns)"

definition detect_language :: "string \<Rightarrow> string option \<Rightarrow> string" where
  "detect_language path content_opt =
     (let file_ext = lower (path_suffix path) in
      case extension_map file_ext of
        Some lang \<Rightarrow> lang
      | None \<Rightarrow>
          (case content_opt of
             None \<Rightarrow> ''unknown''
           | Some content \<Rightarrow>
               if content = [] then ''unknown''
               else (case find (\<lambda>(lang, patterns). 2 \<le> count_matches patterns content)
                            content_patterns of
                       Some (lang, patterns) \<Rightarrow> lang
                     | None \<Rightarrow> ''unknown'')))"

section \<open>SyntaxAnalyzer\<close>

text \<open>
  A rule is an entry of \<open>fix_patterns\<close>: its name (the dictionary key), the pattern, the
  fix function and the description. The fix returns \<open>Inr\<close> of the fixed line, or \<open>Inl\<close>
  of the message of the exception it raised.
\<close>

record rule =
  rule_name :: string
  rule_pattern :: regex
  rule_fix :: "string \<Rightarrow> string + string"
  rule_description :: string

definition fix_python_indentation :: "string \<Rightarrow> string" where
  "fix_python_indentation line =
     (if strip line \<noteq> [] then
        (if re_match (Seqs [Bol, Star Space,
               Words [''class'', ''def'', ''if'', ''for'', ''while'', ''try'', ''except'',
                      ''finally'', ''with'']]) line
         then ''    '' @ strip line
         else if re_match (Seqs [Bol, Star Space,
               Words [''elif'', ''else'', ''except'', ''finally'']]) line
         then strip line
         else ''    '' @ strip line)
      else line)"

definition fix_go_imports :: "string \<Rightarrow> string" where
  "fix_go_imports line = line"

definition python_rules :: "rule list" where
  "python_rules =
     [\<lparr>rule_name = ''missing_colon'',
       rule_pattern = Seqs [Words [''if'', ''elif'', ''else'', ''for'', ''while'', ''def'',
                                   ''class'', ''try'', ''except'', ''finally'', ''with''],
                            Plus Space, Star (Set True [CChar CHR '':'']), Eol],
       rule_fix = (\<lambda>line. Inr (rstrip line @ '':'')),
       rule_description = ''Missing colon''\<rparr>,
      \<lparr>rule_name = ''print_parentheses'',
       rule_pattern = Seqs [Str ''print'', Plus Space, Set True [CChar CHR ''(''], Star Dot,
                            Set True [CChar CHR '')''], Eol],
       rule_fix = (\<lambda>line. Inr (re_sub [Seq (Str ''print'') (Plus Space), Plus Dot]
                                       [RText ''print('', RGroup 1, RText '')''] line)),
       rule_description = ''Print statement needs parentheses''\<rparr>,
      \<lparr>rule_name = ''indentation'',
       rule_pattern = Seqs [Bol, Star Space, Set True [CSpace], Star Dot],
       rule_fix = (\<lambda>line. Inr (fix_python_indentation line)),
       rule_description = ''Indentation error''\<rparr>]"

definition javascript_rules :: "rule list" where
  "javascript_rules =
     [\<lparr>rule_name = ''missing_semicolon'',
       rule_pattern = Seqs [Set True [CChar CHR '';'', CChar CHR ''{'', CChar CHR ''}'', CSpace],
                            Eol],
       rule_fix = (\<lambda>line. Inr (rstrip line @ '';'')),
       rule_description = ''Missing semicolon''\<rparr>,
      \<lparr>rule_name = ''var_to_const'',
       rule_pattern = Seqs [Str ''var'', Plus Space, Plus Word, Star Space, Lit CHR ''='',
                            Star Space,
                            Set False [CChar (CHR 0x22), CChar (CHR 0x27), CDigit,
                                       CChar CHR ''['', CChar CHR ''{'']],
       rule_fix = (\<lambda>line. Inr (re_sub [Seq (Str ''var'') (Plus Space)]
                                       [RText ''const ''] line)),
       rule_description = ''Use const instead of var''\<rparr>,
      \<lparr>rule_name = ''double_equals'',
       rule_pattern = Seqs [Set True [CChar CHR ''='', CChar CHR ''!''], Str ''=='',
                            Opt (Lit CHR ''=''), Set True [CChar CHR ''='']],
       rule_fix = (\<lambda>line. Inr (re_sub [Set True [CChar CHR ''='', CChar CHR ''!''],
                                        Seq (Str ''=='') (Opt (Lit CHR ''='')),
                                        Set True [CChar CHR ''='']]
                                       [RGroup 0, RText ''==='', RGroup 2] line)),
       rule_description = ''Use strict equality''\<rparr>]"

definition go_rules :: "rule list" where
  "go_rules =
     [\<lparr>rule_name = ''unused_import'',
       rule_pattern = Seqs [Str ''import'', Plus Space, Lit (CHR 0x22),
                            Star (Set True [CChar (CHR 0x22)]), Lit (CHR 0x22),
                            Star Space, Eol],
       rule_fix = (\<lambda>line. Inr (fix_go_imports line)),
       rule_description = ''Unused import''\<rparr>,
      \<lparr>rule_name = ''gofmt_spacing'',
       rule_pattern = Seqs [Plus Word, Star Space, Lit CHR ''{'', Star Space, Eol],
       rule_fix = (\<lambda>line. Inr (re_sub [Plus Word,
                                        Seqs [Star Space, Lit CHR ''{'', Star Space, Eol]]
                                       [RGroup 0, RText '' {''] line)),
       rule_description = ''Go formatting''\<rparr>]"

definition fix_patterns :: "string \<rightharpoonup> rule list" where
  "fix_patterns = map_of
     [(''python'', python_rules),
      (''javascript'', javascript_rules),
      (''go'', go_rules)]"

text \<open>
  The inner loop of \<open>analyze_syntax_errors\<close>: every rule is tried on \<open>line\<close>, the line as
  it was read; the triple carries \<open>lines[i]\<close>, \<open>errors_found\<close> and \<open>fixes_applied\<close>.
  Every fix of the tables is callable, so the test on \<open>callable\<close> has no branch here.
\<close>

fun apply_rules ::
  "rule list \<Rightarrow> nat \<Rightarrow> string \<Rightarrow> string \<times> string list \<times> string list
     \<Rightarrow> string \<times> string list \<times> string list" where
  "apply_rules [] i line acc = acc"
| "apply_rules (r # rs) i line (cur, errors_found, fixes_applied) =
     (if re_search (rule_pattern r) line then
        (let errors_found' =
               errors_found @ [''Line '' @ str_nat (i + 1) @ '': '' @ rule_description r]
         in case rule_fix r line of
              Inr fixed_line \<Rightarrow>
                if fixed_line \<noteq> line
                then apply_rules rs i line
                       (fixed_line, errors_found',
                        fixes_applied @
                          [''Fixed '' @ rule_name r @ '' on line '' @ str_nat (i + 1)])
                else apply_rules rs i line (cur, errors_found', fixes_applied)
            | Inl e \<Rightarrow>
                apply_rules rs i line
                  (cur, errors_found',
                   fixes_applied @
                     [''Attempted '' @ rule_name r @ '' fix on line '' @ str_nat (i + 1)
                        @ '': '' @ e]))
      else apply_rules rs i line (cur, errors_found, fixes_applied))"

text \<open>The outer loop, over \<open>enumerate(lines)\<close>.\<close>

fun scan_lines ::
  "rule list \<Rightarrow> nat \<Rightarrow> string list \<Rightarrow> string list \<times> string list
     \<Rightarrow> string list \<times> string list \<times> string list" where
  "scan_lines rs i [] (errors_found, fixes_applied) = ([], errors_found, fixes_applied)"
| "scan_lines rs i (line # rest) (errors_found, fixes_applied) =
     (case apply_rules rs i line (line, errors_found, fixes_applied) of
        (cur, errors_found', fixes_applied') \<Rightarrow>
          (case scan_lines rs (i + 1) rest (errors_found', fixes_applied') of
             (lines', errors_found'', fixes_applied'') \<Rightarrow>
               (cur # lines', errors_found'', fixes_applied'')))"

text \<open>
  The three values the analysis computes for a language that has rules: the issues, the
  fixes and the fixed content.
\<close>

definition run_rules :: "rule list \<Rightarrow> string \<Rightarrow> string list \<times> string list \<times> string" where
  "run_rules patterns content =
     (case scan_lines patterns 0 (split_on newline content) ([], []) of
        (lines', errors_found, fixes_applied) \<Rightarrow>
          (errors_found, fixes_applied, join_with newline lines'))"

text \<open>
  \<open>analyze_syntax_errors\<close> returns the issues followed by the fixes, as one list, and
  the fixed content. The cache key is the language and the MD5 digest of the content;
  the digest is taken to be free of collisions, so the key is modelled as the pair of
  the language and the content.
\<close>

type_synonym analysis = "string list \<times> string"

type_synonym pattern_cache = "string \<times> string \<rightharpoonup> analysis"

definition analyze_syntax_errors ::
  "pattern_cache \<Rightarrow> string \<Rightarrow> string \<Rightarrow> analysis \<times> pattern_cache" where
  "analyze_syntax_errors cache content language =
     (case fix_patterns language of
        None \<Rightarrow> (([], content), cache)
      | Some patterns \<Rightarrow>
          (case cache (language, content) of
             Some cached \<Rightarrow> (cached, cache)
           | None \<Rightarrow>
               (case run_rules patterns content of
                  (errors_found, fixes_applied, fixed_content) \<Rightarrow>
                    (let result = (errors_found @ fixes_applied, fixed_content)
                     in (result, cache((language, content) \<mapsto> result))))))"

section \<open>ShellChampion\<close>

text \<open>
  What happens outside the program when a tool is run on the temporary file: the
  process ends, with its return code being zero or not, its standard error and the
  content of the temporary file if it still exists; or the wait times out; or an
  exception is raised on the way.
\<close>

datatype tool_outcome =
    Exited bool string "string option"
  | Timeout
  | Raised string

record shell_env =
  available_tools :: "string \<Rightarrow> bool"
  write_temp :: "string \<Rightarrow> string \<Rightarrow> string option"
  run_tool :: "string \<Rightarrow> string \<Rightarrow> string \<Rightarrow> tool_outcome"

definition commands :: "string list" where
  "commands = [''black'', ''autopep8'', ''isort'']"

definition execute_tool ::
  "shell_env \<Rightarrow> string \<Rightarrow> string \<Rightarrow> string \<Rightarrow> bool \<times> string \<times> string list" where
  "execute_tool env tool path content =
     (if \<not> available_tools env tool then (False, content, [''Tool '' @ tool @ '' not available''])
      else (case write_temp env path content of
              Some e \<Rightarrow> (False, content, [e])
            | None \<Rightarrow>
                if tool \<notin> set commands then (False, content, [''Unknown tool: '' @ tool])
                else (case run_tool env tool path content of
                        Timeout \<Rightarrow> (False, content, [''Tool execution timeout''])
                      | Raised e \<Rightarrow> (False, content, [e])
                      | Exited ok err None \<Rightarrow> (False, content, [''Failed to process file''])
                      | Exited ok err (Some fixed_content) \<Rightarrow>
                          (ok, fixed_content,
                           if err \<noteq> [] then split_on newline err else []))))"

section \<open>AutoSyntaxFixerILN3\<close>

record FixResult =
  file_path :: string
  original_errors :: "string list"
  fixes_applied :: "string list"
  success :: bool
  language :: string
  processing_time :: real
  tool_used :: string

text \<open>
  The statistics dictionary. The two rates are floats; they are modelled as reals, that
  is, without the rounding of the float operations.
\<close>

record statistics =
  files_processed :: nat
  total_fixes :: nat
  success_rate :: real
  avg_processing_time :: real

record fixer =
  stats :: statistics
  pattern_cache :: pattern_cache

definition init_stats :: statistics where
  "init_stats =
     \<lparr>files_processed = 0, total_fixes = 0, success_rate = 0, avg_processing_time = 0\<rparr>"

definition init_fixer :: fixer where
  "init_fixer = \<lparr>stats = init_stats, pattern_cache = Map.empty\<rparr>"

definition tool_mapping :: "string \<Rightarrow> string list" where
  "tool_mapping lang = (if lang = ''python'' then [''black'', ''autopep8'', ''isort''] else [])"

text \<open>The loop over the tools of the language; it stops at the first tool that succeeds.\<close>

fun try_tools ::
  "shell_env \<Rightarrow> string \<Rightarrow> string list \<Rightarrow> string \<Rightarrow> string list
     \<Rightarrow> bool \<times> string \<times> string list" where
  "try_tools env path [] final_content shell_errors = (False, final_content, shell_errors)"
| "try_tools env path (tool # tools) final_content shell_errors =
     (case execute_tool env tool path final_content of
        (ok, tool_corrected, errors) \<Rightarrow>
          if ok then (True, tool_corrected, shell_errors)
          else try_tools env path tools final_content (shell_errors @ errors))"

text \<open>The update of the statistics, by the number of fixes and the time of one file.\<close>

definition update_stats :: "statistics \<Rightarrow> nat \<Rightarrow> real \<Rightarrow> statistics" where
  "update_stats s n_fixes time =
     (let n = files_processed s + 1;
          fixes = total_fixes s + n_fixes;
          rate = (if 0 < n then real fixes / real n * 100 else success_rate s);
          avg = (if n = 1 then time * 1000
                 else (avg_processing_time s * (real n - 1) + time * 1000) / real n)
      in \<lparr>files_processed = n, total_fixes = fixes, success_rate = rate,
          avg_processing_time = avg\<rparr>)"

text \<open>
  \<open>fix_file_content\<close>; \<open>t0\<close> and \<open>t1\<close> are the two readings of the clock, at the start and
  when the processing time is computed.
\<close>

definition fix_file_content ::
  "shell_env \<Rightarrow> fixer \<Rightarrow> real \<Rightarrow> real \<Rightarrow> string \<Rightarrow> string \<Rightarrow> FixResult \<times> fixer" where
  "fix_file_content env fx t0 t1 path content =
     (let lang = detect_language path (Some content) in
      if lang = ''unknown'' then
        (\<lparr>file_path = path, original_errors = [''Unknown file type''], fixes_applied = [],
          success = False, language = lang, processing_time = t1 - t0,
          tool_used = ''ILN_Auto_Syntax_Fixer''\<rparr>, fx)
      else
        (case analyze_syntax_errors (pattern_cache fx) content lang of
           ((analysis_result, corrected_content), cache') \<Rightarrow>
        (case try_tools env path (tool_mapping lang) corrected_content [] of
           (shell_success, final_content, shell_errors) \<Rightarrow>
          (let half = length analysis_result div 2;
               found = (if analysis_result \<noteq> [] then take half analysis_result else []);
               fixed = (if analysis_result \<noteq> [] then drop half analysis_result else []);
               all_errors = (if shell_errors \<noteq> [] then found @ shell_errors else found);
               all_fixes = (if shell_success
                            then fixed @ [''Applied external tool formatting'']
                            else fixed)
           in (\<lparr>file_path = path, original_errors = all_errors, fixes_applied = all_fixes,
                success = (0 < length all_fixes \<or> length all_errors = 0),
                language = lang, processing_time = t1 - t0,
                tool_used = ''ILN_Level3_'' @
                  (if shell_success then ''with_shell'' else ''internal'')\<rparr>,
               \<lparr>stats = update_stats (stats fx) (length all_fixes) (t1 - t0),
                pattern_cache = cache'\<rparr>)))))"

subsection \<open>fix_repository\<close>

text \<open>
  The file system and the scheduler, as \<open>fix_repository\<close> sees them.
  \<^item> \<open>path_exists\<close> is \<open>Path.exists()\<close>: it returns a truth value, or raises the \<open>OSError\<close>
    of the underlying \<open>stat\<close> when its error number is not one of those that mean a
    missing path (a name too long for the file system, a directory that may not be
    searched); \<open>Inl\<close> is the message of that error.
  \<^item> \<open>rglob\<close> is the iteration of \<open>rglob('*')\<close> under the root: the paths it yields, each
    with what \<open>is_file()\<close> gives for it (\<open>Inl\<close> the message of the \<open>OSError\<close> it raises),
    and the message of the \<open>OSError\<close> that ends the iteration, if one does.
  \<^item> \<open>read_text\<close> is the reading of a file, \<open>Inl\<close> the message of a \<open>UnicodeDecodeError\<close>
    or \<open>IOError\<close>.
  \<^item> \<open>clock\<close> gives the two clock readings of the task of a file, and \<open>task_fault\<close> the
    message of an exception that escapes the task, if one does.
\<close>

record batch_env =
  path_exists :: "string \<Rightarrow> string + bool"
  rglob :: "string \<Rightarrow> (string \<times> (string + bool)) list \<times> string option"
  read_text :: "string \<Rightarrow> string + string"
  clock :: "string \<Rightarrow> real \<times> real"
  task_fault :: "string \<Rightarrow> string option"

definition supported_extensions :: "string list" where
  "supported_extensions =
     [''.py'', ''.js'', ''.jsx'', ''.ts'', ''.tsx'', ''.go'', ''.rs'', ''.java'',
      ''.cpp'', ''.cc'', ''.cxx'', ''.c'', ''.h'']"

definition failure :: "string \<Rightarrow> string \<Rightarrow> FixResult" where
  "failure path issue =
     \<lparr>file_path = path, original_errors = [issue], fixes_applied = [], success = False,
      language = ''unknown'', processing_time = 0, tool_used = ''ILN_Auto_Syntax_Fixer''\<rparr>"

definition eligible :: "string \<times> bool \<Rightarrow> bool" where
  "eligible entry =
     (case entry of
        (p, is_file) \<Rightarrow>
          is_file \<and> lower (path_suffix p) \<in> set supported_extensions \<and>
          \<not> list_ex (\<lambda>part. startswith part ''.'') (path_parts p) \<and>
          ''node_modules'' \<notin> set (path_parts p) \<and>
          ''__pycache__'' \<notin> set (path_parts p))"

text \<open>
  The discovery loop: \<open>is_file()\<close> is the first test on every path that is yielded, so
  the first error, of a test or of the iteration, ends the loop and is raised by
  \<open>fix_repository\<close>; \<open>Inl\<close> is its message.
\<close>

fun select_files :: "(string \<times> (string + bool)) list \<Rightarrow> string + string list" where
  "select_files [] = Inr []"
| "select_files ((p, tested) # entries) =
     (case tested of
        Inl e \<Rightarrow> Inl e
      | Inr is_file \<Rightarrow>
          (case select_files entries of
             Inl e \<Rightarrow> Inl e
           | Inr files \<Rightarrow> Inr (if eligible (p, is_file) then p # files else files)))"

definition discover :: "batch_env \<Rightarrow> string \<Rightarrow> string + string list" where
  "discover benv repo =
     (case rglob benv repo of
        (entries, ended) \<Rightarrow>
          (case select_files entries of
             Inl e \<Rightarrow> Inl e
           | Inr files \<Rightarrow> (case ended of Some e \<Rightarrow> Inl e | None \<Rightarrow> Inr files)))"

text \<open>
  The preparation loop: a file that is read gives a task, a file that cannot be read
  gives a result at once.
\<close>

fun prepare :: "batch_env \<Rightarrow> string list \<Rightarrow> (string \<times> string) list \<times> FixResult list" where
  "prepare benv [] = ([], [])"
| "prepare benv (p # ps) =
     (case prepare benv ps of
        (tasks, results) \<Rightarrow>
          (case read_text benv p of
             Inr content \<Rightarrow> ((path_str p, content) # tasks, results)
           | Inl e \<Rightarrow> (tasks, failure (path_str p) (''Cannot read file: '' @ e) # results)))"

text \<open>
  \<open>asyncio.gather(*tasks, return_exceptions=True)\<close>: each task ends with its result or
  with the exception that escaped it, in the order of the tasks. The tasks are run one
  after the other on the fixer, and a task that ends with an exception is taken to
  leave the fixer as it was.
\<close>

fun gather ::
  "shell_env \<Rightarrow> batch_env \<Rightarrow> fixer \<Rightarrow> (string \<times> string) list
     \<Rightarrow> (string + FixResult) list \<times> fixer" where
  "gather env benv fx [] = ([], fx)"
| "gather env benv fx ((p, content) # tasks) =
     (case task_fault benv p of
        Some e \<Rightarrow>
          (case gather env benv fx tasks of
             (outcomes, fx') \<Rightarrow> (Inl e # outcomes, fx'))
      | None \<Rightarrow>
          (case fix_file_content env fx (fst (clock benv p)) (snd (clock benv p)) p content of
             (result, fx') \<Rightarrow>
               (case gather env benv fx' tasks of
                  (outcomes, fx'') \<Rightarrow> (Inr result # outcomes, fx''))))"

definition collect :: "string + FixResult \<Rightarrow> FixResult" where
  "collect outcome =
     (case outcome of
        Inr result \<Rightarrow> result
      | Inl e \<Rightarrow> failure ''unknown'' (''Processing error: '' @ e))"

text \<open>\<open>fix_repository\<close> returns its results and the fixer, or raises: \<open>Inl\<close> is the message.\<close>

definition fix_repository ::
  "shell_env \<Rightarrow> batch_env \<Rightarrow> fixer \<Rightarrow> string \<Rightarrow> string + FixResult list \<times> fixer" where
  "fix_repository env benv fx repo_path =
     (case path_exists benv repo_path of
        Inl e \<Rightarrow> Inl e
      | Inr False \<Rightarrow>
          Inr ([failure (path_str repo_path) ''Repository path does not exist''], fx)
      | Inr True \<Rightarrow>
          (case discover benv repo_path of
             Inl e \<Rightarrow> Inl e
           | Inr files_to_process \<Rightarrow>
               if files_to_process = []
               then Inr ([failure (path_str repo_path) ''No supported files found''], fx)
               else
                 (case prepare benv files_to_process of
                    (tasks, results) \<Rightarrow>
                      if tasks \<noteq> [] then
                        (case gather env benv fx tasks of
                           (completed_results, fx') \<Rightarrow>
                             Inr (results @ map collect completed_results, fx'))
                      else Inr (results, fx))))"

section \<open>Specification functions and sample inputs\<close>

text \<open>Environments and inputs on which the properties below are exercised.\<close>

definition no_tools :: shell_env where
  "no_tools = \<lparr>available_tools = (\<lambda>tool. False), write_temp = (\<lambda>path content. None),
                run_tool = (\<lambda>tool path content. Timeout)\<rparr>"

definition go_import :: string where
  "go_import = ''import '' @ [CHR 0x22] @ ''fmt'' @ [CHR 0x22]"

definition demo_tree :: batch_env where
  "demo_tree =
     \<lparr>path_exists = (\<lambda>p. if list_ex (\<lambda>part. 255 < length part) (path_tail p)
                          then Inl ''File name too long''
                          else Inr (p = ''repo'' \<or> p = ''docs'')),
      rglob = (\<lambda>p. if p = ''repo''
                     then ([(''repo/a.py'', Inr True), (''repo/src'', Inr False),
                            (''repo/src/b.js'', Inr True), (''repo/c.go'', Inr True),
                            (''repo/.git/d.py'', Inr True), (''repo/README.md'', Inr True)],
                           None)
                     else if p = ''docs''
                     then ([(''docs/README.md'', Inr True), (''docs/.hidden/x.py'', Inr True),
                            (''docs/node_modules/y.js'', Inr True), (''docs/z.py'', Inr False)],
                           None)
                     else ([], None)),
      read_text = (\<lambda>p. if p = ''repo/src/b.js'' then Inl ''invalid start byte'' else Inr ''x = 1''),
      clock = (\<lambda>p. (0, 1)),
      task_fault = (\<lambda>p. if p = ''repo/c.go'' then Some ''boom'' else None)\<rparr>"

text \<open>A root whose single component is longer than the 255 characters of a file name.\<close>

definition long_root :: string where
  "long_root = replicate 300 CHR ''a''"

text \<open>
  A discovered file is accounted for in the results of the batch: by the failure of its
  reading, by the failure that stands for the exception of its task, or by a result
  that carries its path.
\<close>

definition accounted :: "batch_env \<Rightarrow> FixResult list \<Rightarrow> string \<Rightarrow> bool" where
  "accounted benv results f =
     (case read_text benv f of
        Inl e \<Rightarrow> failure (path_str f) (''Cannot read file: '' @ e) \<in> set results
      | Inr content \<Rightarrow>
          (case task_fault benv (path_str f) of
             Some e \<Rightarrow> failure ''unknown'' (''Processing error: '' @ e) \<in> set results
           | None \<Rightarrow> path_str f \<in> set (map file_path results)))"

text \<open>
  The rule engine, told line by line. The rules that match a line as it was read; whether
  the fix of a rule changes the line; and the line that is stored in the end: the fix,
  applied to the line as read, of the last matching rule whose fix changes it, or the
  line itself when there is no such rule.
\<close>

definition matching_rules :: "rule list \<Rightarrow> string \<Rightarrow> rule list" where
  "matching_rules rs line = filter (\<lambda>r. re_search (rule_pattern r) line) rs"

definition changes :: "rule \<Rightarrow> string \<Rightarrow> bool" where
  "changes r line =
     (case rule_fix r line of Inr fixed_line \<Rightarrow> fixed_line \<noteq> line | Inl e \<Rightarrow> False)"

definition last_change :: "rule list \<Rightarrow> string \<Rightarrow> string" where
  "last_change rs line =
     (case rev (filter (\<lambda>r. changes r line) (matching_rules rs line)) of
        [] \<Rightarrow> line
      | r # earlier \<Rightarrow> (case rule_fix r line of Inr fixed_line \<Rightarrow> fixed_line | Inl e \<Rightarrow> line))"

text \<open>The entries that one matching rule adds to the issues and to the fixes.\<close>

definition issue_entry :: "nat \<Rightarrow> rule \<Rightarrow> string" where
  "issue_entry i r = ''Line '' @ str_nat (i + 1) @ '': '' @ rule_description r"

definition fix_entry :: "nat \<Rightarrow> string \<Rightarrow> rule \<Rightarrow> string list" where
  "fix_entry i line r =
     (case rule_fix r line of
        Inr fixed_line \<Rightarrow>
          if fixed_line \<noteq> line
          then [''Fixed '' @ rule_name r @ '' on line '' @ str_nat (i + 1)] else []
      | Inl e \<Rightarrow>
          [''Attempted '' @ rule_name r @ '' fix on line '' @ str_nat (i + 1) @ '': '' @ e])"

definition issue_entries :: "rule list \<Rightarrow> nat \<times> string \<Rightarrow> string list" where
  "issue_entries rs il = map (issue_entry (fst il)) (matching_rules rs (snd il))"

definition fix_entries :: "rule list \<Rightarrow> nat \<times> string \<Rightarrow> string list" where
  "fix_entries rs il = concat (map (fix_entry (fst il) (snd il)) (matching_rules rs (snd il)))"

text \<open>
  A line is settled when every rule that matches it returns it unchanged, so that the
  engine records no fix on it. The condition of the claim looks at each rule alone: the
  pattern of a rule does not match the line that its own fix returned.
\<close>

definition settled :: "rule list \<Rightarrow> string \<Rightarrow> bool" where
  "settled rs line = list_all (\<lambda>r. rule_fix r line = Inr line) (matching_rules rs line)"

definition own_output_unmatched :: "rule list \<Rightarrow> string \<Rightarrow> bool" where
  "own_output_unmatched rs line =
     list_all (\<lambda>r. case rule_fix r line of
                      Inr fixed_line \<Rightarrow> \<not> re_search (rule_pattern r) fixed_line
                    | Inl e \<Rightarrow> True)
       (matching_rules rs line)"

text \<open>
  The cache holds, for a language and a content, what the engine computes for them, as
  it does in every state that the fixer reaches from its initial one.
\<close>

definition cache_ok :: "pattern_cache \<Rightarrow> bool" where
  "cache_ok cache =
     (\<forall>lang content cached. cache (lang, content) = Some cached \<longrightarrow>
        (\<exists>rs. fix_patterns lang = Some rs \<and>
              cached = (fst (run_rules rs content) @ fst (snd (run_rules rs content)),
                        snd (snd (run_rules rs content)))))"

section \<open>Facts about the sample inputs\<close>

lemma go_lang: "detect_language ''main.go'' (Some go_import) = ''go''"
  by code_simp

lemma go_run: "run_rules go_rules go_import = ([''Line 1: Unused import''], [], go_import)"
  by code_simp

lemma fp_go: "fix_patterns ''go'' = Some go_rules"
  by (simp add: fix_patterns_def)

lemma go_result:
  "fst (fix_file_content no_tools init_fixer 0 1 ''main.go'' go_import) =
     \<lparr>file_path = ''main.go'', original_errors = [], fixes_applied = [''Line 1: Unused import''],
      success = True, language = ''go'', processing_time = 1,
      tool_used = ''ILN_Level3_internal''\<rparr>"
  by (simp add: fix_file_content_def go_lang analyze_syntax_errors_def fp_go init_fixer_def
      go_run tool_mapping_def Let_def)

lemma notes_unknown: "detect_language ''notes.txt'' (Some ''hello world'') = ''unknown''"
  by code_simp

lemma discover_docs: "discover demo_tree ''docs'' = Inr []"
  by code_simp

lemma discover_repo:
  "discover demo_tree ''repo'' = Inr [''repo/a.py'', ''repo/src/b.js'', ''repo/c.go'']"
  by code_simp

section \<open>Lines\<close>

lemma split_on_no_sep: "sep \<notin> set l \<Longrightarrow> split_on sep l = [l]"
  by (induction l) auto

lemma split_on_append: "sep \<notin> set l \<Longrightarrow> split_on sep (l @ sep # s) = l # split_on sep s"
  by (induction l) auto

lemma split_on_not_Nil: "split_on sep s \<noteq> []"
  by (induction s) (auto split: list.splits)

lemma split_on_lines: "l \<in> set (split_on sep s) \<Longrightarrow> sep \<notin> set l"
proof (induction s arbitrary: l)
  case Nil
  then show ?case by simp
next
  case (Cons c s)
  then show ?case
    using split_on_not_Nil [of sep s]
    by (cases "split_on sep s") (auto split: if_splits)
qed

lemma split_on_join_with:
  "ls \<noteq> [] \<Longrightarrow> \<forall>l \<in> set ls. sep \<notin> set l \<Longrightarrow> split_on sep (join_with sep ls) = ls"
proof (induction sep ls rule: join_with.induct)
  case (1 sep)
  then show ?case by simp
next
  case (2 sep l)
  then show ?case by (simp add: split_on_no_sep)
next
  case (3 sep l m ls)
  then show ?case by (simp add: split_on_append)
qed

lemma split_on_append_sep:
  "split_on sep (a @ sep # b) = split_on sep a @ split_on sep b"
proof (induction a)
  case Nil
  show ?case by simp
next
  case (Cons c a)
  show ?case
  proof (cases "c = sep")
    case True
    then show ?thesis by (simp add: Cons.IH)
  next
    case False
    obtain l ls where "split_on sep a = l # ls"
      using split_on_not_Nil [of sep a] by (cases "split_on sep a") auto
    with False show ?thesis by (simp add: Cons.IH)
  qed
qed

section \<open>The rule engine\<close>

lemma fp_python: "fix_patterns ''python'' = Some python_rules"
  by (simp add: fix_patterns_def)

lemma python_if_run:
  "fst (run_rules python_rules ''if x > 0'') =
     [''Line 1: Missing colon'', ''Line 1: Indentation error'']"
  "fst (snd (run_rules python_rules ''if x > 0'')) =
     [''Fixed missing_colon on line 1'', ''Fixed indentation on line 1'']"
  by code_simp+

lemma python_indented_if_run:
  "run_rules python_rules ''    if x > 0'' =
     ([''Line 1: Missing colon'', ''Line 1: Indentation error''],
      [''Fixed missing_colon on line 1''],
      ''    if x > 0:'')"
  by code_simp

lemma apply_rules_char:
  "apply_rules rs i line (cur, es, fs) =
     (case rev (filter (\<lambda>r. changes r line) (matching_rules rs line)) of
        [] \<Rightarrow> cur
      | r # earlier \<Rightarrow> (case rule_fix r line of Inr fixed_line \<Rightarrow> fixed_line | Inl e \<Rightarrow> line),
      es @ issue_entries rs (i, line), fs @ fix_entries rs (i, line))"
proof (induction rs arbitrary: cur es fs)
  case Nil
  show ?case by (simp add: matching_rules_def issue_entries_def fix_entries_def)
next
  case (Cons r rs)
  show ?case
  proof (cases "re_search (rule_pattern r) line")
    case False
    then show ?thesis
      by (simp add: Cons.IH matching_rules_def issue_entries_def fix_entries_def)
  next
    case True
    show ?thesis
    proof (cases "rule_fix r line")
      case (Inl e)
      with True show ?thesis
        by (simp add: Cons.IH matching_rules_def issue_entries_def fix_entries_def
            issue_entry_def fix_entry_def changes_def)
    next
      case (Inr fixed_line)
      with True show ?thesis
        by (simp add: Cons.IH matching_rules_def issue_entries_def fix_entries_def
            issue_entry_def fix_entry_def changes_def split: list.splits)
    qed
  qed
qed

lemma scan_lines_char:
  "scan_lines rs i ls (es, fs) =
     (map (last_change rs) ls,
      es @ concat (map (issue_entries rs) (enumerate i ls)),
      fs @ concat (map (fix_entries rs) (enumerate i ls)))"
proof (induction ls arbitrary: i es fs)
  case Nil
  show ?case by simp
next
  case (Cons l ls)
  show ?case
    by (simp add: apply_rules_char Cons.IH last_change_def)
qed

lemma run_rules_char:
  "run_rules rs content =
     (concat (map (issue_entries rs) (enumerate 0 (split_on newline content))),
      concat (map (fix_entries rs) (enumerate 0 (split_on newline content))),
      join_with newline (map (last_change rs) (split_on newline content)))"
  by (simp add: run_rules_def scan_lines_char)

text \<open>The cache returns what the engine computes, and stays so.\<close>

lemma cache_ok_empty: "cache_ok Map.empty"
  by (simp add: cache_ok_def)

lemma analyze_syntax_errors_result:
  assumes "cache_ok cache" and "fix_patterns lang = Some rs"
  shows "fst (analyze_syntax_errors cache content lang) =
           (fst (run_rules rs content) @ fst (snd (run_rules rs content)),
            snd (snd (run_rules rs content)))"
proof (cases "cache (lang, content)")
  case None
  with assms(2) show ?thesis
    by (simp add: analyze_syntax_errors_def Let_def split: prod.splits)
next
  case (Some cached)
  with assms(1) obtain rs' where "fix_patterns lang = Some rs'"
    "cached = (fst (run_rules rs' content) @ fst (snd (run_rules rs' content)),
               snd (snd (run_rules rs' content)))"
    unfolding cache_ok_def by blast
  with assms(2) Some show ?thesis
    by (simp add: analyze_syntax_errors_def)
qed

lemma analyze_syntax_errors_cache_ok:
  assumes "cache_ok cache"
  shows "cache_ok (snd (analyze_syntax_errors cache content lang))"
proof (cases "fix_patterns lang")
  case None
  with assms show ?thesis by (simp add: analyze_syntax_errors_def)
next
  case (Some rs)
  show ?thesis
  proof (cases "cache (lang, content)")
    case (Some cached)
    with assms \<open>fix_patterns lang = Some rs\<close> show ?thesis
      by (simp add: analyze_syntax_errors_def)
  next
    case None
    with assms \<open>fix_patterns lang = Some rs\<close> show ?thesis
      unfolding cache_ok_def
      by (auto simp: analyze_syntax_errors_def Let_def split: prod.splits)
  qed
qed

text \<open>
  Claim C2, as amended. On the single Python line \<open>if x > 0\<close> the engine finds two
  issues, the missing colon and, since the indentation rule matches every line that is
  not blank, an indentation error, and it records a fix for each of the two rules.
  \<open>analyze_syntax_errors\<close> returns the two issues followed by the two fixes.
\<close>

theorem python_if_example:
  "fst (run_rules python_rules ''if x > 0'') =
     [''Line 1: Missing colon'', ''Line 1: Indentation error''] \<and>
   fst (snd (run_rules python_rules ''if x > 0'')) =
     [''Fixed missing_colon on line 1'', ''Fixed indentation on line 1''] \<and>
   (cache_ok cache \<longrightarrow>
      fst (fst (analyze_syntax_errors cache ''if x > 0'' ''python'')) =
        [''Line 1: Missing colon'', ''Line 1: Indentation error'',
         ''Fixed missing_colon on line 1'', ''Fixed indentation on line 1''])"
  by (simp add: python_if_run analyze_syntax_errors_result [OF _ fp_python])

theorem python_if_example_witness:
  "cache_ok Map.empty \<and>
   fst (fst (analyze_syntax_errors Map.empty ''if x > 0'' ''python'')) =
     [''Line 1: Missing colon'', ''Line 1: Indentation error'',
      ''Fixed missing_colon on line 1'', ''Fixed indentation on line 1'']"
  using python_if_example [of Map.empty] cache_ok_empty by simp

text \<open>
  The claim as it was stated fails: there are two issues and two fixes, not one of
  each.
\<close>

theorem python_if_not_as_claimed:
  "length (fst (run_rules python_rules ''if x > 0'')) = 2 \<and>
   length (fst (snd (run_rules python_rules ''if x > 0''))) = 2"
  by (simp add: python_if_run)

text \<open>
  Claim C10, as amended. For a language with rules, every rule that matches a line is
  applied to the line as it was read, and each fix that differs from that line
  overwrites the stored line: the line of the output is the fix of the last matching
  rule whose fix differs from the line, or the line itself when no fix differs. The
  list returned holds one issue for each matching rule, then one fix entry for each
  matching rule whose fix differs or fails.
\<close>

theorem line_is_last_changing_fix:
  assumes "fix_patterns lang = Some rs" and "cache_ok cache"
  shows "fst (analyze_syntax_errors cache content lang) =
           (concat (map (issue_entries rs) (enumerate 0 (split_on newline content))) @
            concat (map (fix_entries rs) (enumerate 0 (split_on newline content))),
            join_with newline (map (last_change rs) (split_on newline content)))"
  using analyze_syntax_errors_result [OF assms(2) assms(1), of content]
  by (simp add: run_rules_char)

lemma indented_if_last_change: "last_change python_rules ''    if x > 0'' = ''    if x > 0:''"
  by code_simp

theorem line_is_last_changing_fix_witness:
  "fix_patterns ''python'' = Some python_rules \<and> cache_ok Map.empty \<and>
   last_change python_rules ''    if x > 0'' = ''    if x > 0:'' \<and>
   snd (fst (analyze_syntax_errors Map.empty ''    if x > 0'' ''python'')) = ''    if x > 0:''"
proof -
  have s: "split_on newline ''    if x > 0'' = [''    if x > 0'']"
    by code_simp
  have "snd (fst (analyze_syntax_errors Map.empty ''    if x > 0'' ''python'')) =
          join_with newline (map (last_change python_rules) (split_on newline ''    if x > 0''))"
    using line_is_last_changing_fix [OF fp_python cache_ok_empty, of "''    if x > 0''"]
    by (simp del: split_on.simps)
  then have "snd (fst (analyze_syntax_errors Map.empty ''    if x > 0'' ''python''))
               = ''    if x > 0:''"
    unfolding s by (simp add: indented_if_last_change)
  then show ?thesis
    by (simp add: fp_python cache_ok_empty indented_if_last_change)
qed

text \<open>
  The claim as it was stated fails when the fix of the last matching rule returns the
  line unchanged: on the Python line \<open>if x > 0\<close> indented by four spaces, the colon rule
  and then the indentation rule match, the indentation rule returns the line as it is,
  and the output keeps the colon that the earlier rule added.
\<close>

lemma indented_if_matching:
  "map rule_name (matching_rules python_rules ''    if x > 0'') = [''missing_colon'', ''indentation'']"
  by code_simp

lemma indented_if_last_fix:
  "rule_fix (last (matching_rules python_rules ''    if x > 0'')) ''    if x > 0'' = Inr ''    if x > 0''"
  by code_simp

theorem last_matching_rule_does_not_win:
  "map rule_name (matching_rules python_rules ''    if x > 0'') = [''missing_colon'', ''indentation''] \<and>
   rule_fix (last (matching_rules python_rules ''    if x > 0'')) ''    if x > 0''
     = Inr ''    if x > 0'' \<and>
   snd (snd (run_rules python_rules ''    if x > 0'')) = ''    if x > 0:'' \<and>
   fst (snd (run_rules python_rules ''    if x > 0'')) = [''Fixed missing_colon on line 1'']"
  by (simp add: indented_if_matching indented_if_last_fix python_indented_if_run)

subsection \<open>A second run\<close>

lemma settled_fix_entries: "settled rs line \<Longrightarrow> fix_entries rs (i, line) = []"
  by (auto simp: settled_def fix_entries_def fix_entry_def list_all_iff)

lemma settled_last_change: "settled rs line \<Longrightarrow> last_change rs line = line"
proof -
  assume "settled rs line"
  then have "filter (\<lambda>r. changes r line) (matching_rules rs line) = []"
    by (auto simp: settled_def changes_def list_all_iff filter_empty_conv)
  then show ?thesis by (simp add: last_change_def)
qed

text \<open>
  When every line that the first run stored is settled and has no line break, a second
  run records no fix and returns the same content.
\<close>

lemma second_run:
  assumes "list_all (\<lambda>l. settled rs (last_change rs l) \<and> newline \<notin> set (last_change rs l))
             (split_on newline content)"
  shows "fst (snd (run_rules rs (snd (snd (run_rules rs content))))) = [] \<and>
         snd (snd (run_rules rs (snd (snd (run_rules rs content))))) = snd (snd (run_rules rs content))"
proof -
  define ls where "ls = split_on newline content"
  define out where "out = map (last_change rs) ls"
  have c1: "snd (snd (run_rules rs content)) = join_with newline out"
    by (simp add: run_rules_char out_def ls_def)
  have each: "settled rs l \<and> newline \<notin> set l" if "l \<in> set out" for l
    using that assms by (auto simp: out_def ls_def list_all_iff)
  have ne: "out \<noteq> []" by (simp add: out_def ls_def split_on_not_Nil)
  have sp: "split_on newline (join_with newline out) = out"
    using ne each by (simp add: split_on_join_with)
  have nofix: "concat (map (fix_entries rs) (enumerate 0 out)) = []"
    using each by (auto simp: settled_fix_entries in_set_enumerate_eq)
  have same: "map (last_change rs) out = out"
    using each by (simp add: settled_last_change map_idI)
  show ?thesis
    by (simp add: c1 run_rules_char [of rs "join_with newline out"] sp nofix same)
qed

lemma js_unmatched: "own_output_unmatched javascript_rules ''var x = 5''"
  by code_simp

lemma js_first: "run_rules javascript_rules ''var x = 5'' =
  ([''Line 1: Missing semicolon'', ''Line 1: Use const instead of var''],
   [''Fixed missing_semicolon on line 1'', ''Fixed var_to_const on line 1''], ''const x = 5'')"
  by code_simp

lemma js_second: "run_rules javascript_rules ''const x = 5'' =
  ([''Line 1: Missing semicolon''], [''Fixed missing_semicolon on line 1''], ''const x = 5;'')"
  by code_simp

text \<open>
  Claim C4. A second run of the engine on the content that the first run corrected
  should record no fix when no rule matches again the line that its own fix returned.
  The code does not keep to this. On the JavaScript line \<open>var x = 5\<close> no rule matches the
  line that its own fix returned; the first run records the fix of the semicolon rule
  and the fix of the second rule, but stores only the second, since that fix is
  applied to the line as it was read and overwrites the first; and the second run
  records the fix of the semicolon again.
\<close>

theorem second_run_fixes_again:
  "own_output_unmatched javascript_rules ''var x = 5'' \<and>
   fst (snd (run_rules javascript_rules ''var x = 5''))
     = [''Fixed missing_semicolon on line 1'', ''Fixed var_to_const on line 1''] \<and>
   snd (snd (run_rules javascript_rules ''var x = 5'')) = ''const x = 5'' \<and>
   fst (snd (run_rules javascript_rules (snd (snd (run_rules javascript_rules ''var x = 5'')))))
     = [''Fixed missing_semicolon on line 1''] \<and>
   snd (snd (run_rules javascript_rules (snd (snd (run_rules javascript_rules ''var x = 5'')))))
     = ''const x = 5;''"
  by (simp add: js_unmatched js_first js_second)

section \<open>The result of one file\<close>

lemma fix_file_content_path: "file_path (fst (fix_file_content env fx t0 t1 path content)) = path"
  by (simp add: fix_file_content_def Let_def split: prod.splits)

lemma fix_file_content_stats:
  "detect_language path (Some content) \<noteq> ''unknown'' \<Longrightarrow>
   stats (snd (fix_file_content env fx t0 t1 path content)) =
     update_stats (stats fx)
       (length (fixes_applied (fst (fix_file_content env fx t0 t1 path content)))) (t1 - t0)"
  by (simp add: fix_file_content_def Let_def split: prod.splits)

lemma unknown_language_keeps_fixer:
  "detect_language path (Some content) = ''unknown'' \<Longrightarrow>
   snd (fix_file_content env fx t0 t1 path content) = fx"
  by (simp add: fix_file_content_def)

lemma update_stats_fields:
  "files_processed (update_stats s k t) = files_processed s + 1"
  "total_fixes (update_stats s k t) = total_fixes s + k"
  "success_rate (update_stats s k t) =
     real (total_fixes s + k) / real (files_processed s + 1) * 100"
  "avg_processing_time (update_stats s k t) =
     (avg_processing_time s * real (files_processed s) + t * 1000) / real (files_processed s + 1)"
  by (simp_all add: update_stats_def Let_def)

text \<open>The cache of the fixer stays right along its calls.\<close>

lemma init_fixer_cache_ok: "cache_ok (pattern_cache init_fixer)"
  by (simp add: init_fixer_def cache_ok_def)

lemma fix_file_content_cache:
  "pattern_cache (snd (fix_file_content env fx t0 t1 path content)) =
     (if detect_language path (Some content) = ''unknown'' then pattern_cache fx
      else snd (analyze_syntax_errors (pattern_cache fx) content
                  (detect_language path (Some content))))"
  by (simp add: fix_file_content_def Let_def split: prod.splits)

lemma fix_file_content_cache_ok:
  "cache_ok (pattern_cache fx) \<Longrightarrow>
   cache_ok (pattern_cache (snd (fix_file_content env fx t0 t1 path content)))"
  by (simp add: fix_file_content_cache analyze_syntax_errors_cache_ok)

text \<open>
  The flag of the result is computed from its two lists, so it agrees with them.
\<close>

lemma success_on_fields:
  "success (fst (fix_file_content env fx t0 t1 path content)) =
     (0 < length (fixes_applied (fst (fix_file_content env fx t0 t1 path content))) \<or>
      length (original_errors (fst (fix_file_content env fx t0 t1 path content))) = 0)"
  by (simp add: fix_file_content_def Let_def split: prod.splits)

text \<open>
  The two lists are not the issues and the fixes of the analysis, though: they are the
  two halves, by length, of the one list that the analysis returned. The second half of
  a list that is not empty is not empty, so a file on which anything was found is a
  success, fixed or not.
\<close>

lemma any_issue_gives_success:
  assumes "detect_language path (Some content) \<noteq> ''unknown''"
    and "fst (fst (analyze_syntax_errors (pattern_cache fx) content
                     (detect_language path (Some content)))) \<noteq> []"
  shows "success (fst (fix_file_content env fx t0 t1 path content))"
proof -
  obtain analysis_result corrected cache' where
    a: "analyze_syntax_errors (pattern_cache fx) content (detect_language path (Some content))
          = ((analysis_result, corrected), cache')"
    by (metis prod.exhaust)
  with assms(2) have ne: "analysis_result \<noteq> []" by simp
  then have "length analysis_result div 2 < length analysis_result" by simp
  then have "drop (length analysis_result div 2) analysis_result \<noteq> []" by simp
  with assms(1) a ne show ?thesis
    by (simp add: fix_file_content_def Let_def split: prod.splits)
qed

text \<open>
  Claim C1. The result of \<open>fix_file_content\<close> should have \<open>success\<close> true exactly when
  a fix was applied or no issue was discovered. The code does not keep to this. On the
  Go file whose content is the line \<open>import "fmt"\<close>, without tools, the engine discovers
  one issue and applies no fix; the split of the returned list in two halves puts the
  issue among the fixes of the result and leaves no issue, and \<open>success\<close> is true.
\<close>

theorem issue_counted_as_fix:
  "fst (run_rules go_rules go_import) = [''Line 1: Unused import''] \<and>
   fst (snd (run_rules go_rules go_import)) = [] \<and>
   original_errors (fst (fix_file_content no_tools init_fixer 0 1 ''main.go'' go_import)) = [] \<and>
   fixes_applied (fst (fix_file_content no_tools init_fixer 0 1 ''main.go'' go_import))
     = [''Line 1: Unused import''] \<and>
   success (fst (fix_file_content no_tools init_fixer 0 1 ''main.go'' go_import)) = True"
  by (simp add: go_run go_result)

text \<open>
  Claim C9. When the language of the input is classified as unknown,
  \<open>fix_file_content\<close> returns a result with \<open>success\<close> false, the single issue
  \<open>Unknown file type\<close> and no fix.
\<close>

theorem fix_file_content_unknown:
  "detect_language path (Some content) = ''unknown'' \<Longrightarrow>
   fst (fix_file_content env fx t0 t1 path content) =
     \<lparr>file_path = path, original_errors = [''Unknown file type''], fixes_applied = [],
      success = False, language = ''unknown'', processing_time = t1 - t0,
      tool_used = ''ILN_Auto_Syntax_Fixer''\<rparr>"
  by (simp add: fix_file_content_def)

theorem fix_file_content_unknown_witness:
  "detect_language ''notes.txt'' (Some ''hello world'') = ''unknown'' \<and>
   success (fst (fix_file_content no_tools init_fixer 0 1 ''notes.txt'' ''hello world'')) = False \<and>
   original_errors (fst (fix_file_content no_tools init_fixer 0 1 ''notes.txt'' ''hello world''))
     = [''Unknown file type''] \<and>
   fixes_applied (fst (fix_file_content no_tools init_fixer 0 1 ''notes.txt'' ''hello world'')) = []"
  using notes_unknown
    fix_file_content_unknown [OF notes_unknown, of no_tools init_fixer 0 1]
  by simp

section \<open>The language of a file\<close>

text \<open>
  The suffix of a path whose final component is a non-empty stem followed by an
  extension of the table is that extension, so such a file has the language of the
  table, in a directory or not.
\<close>

lemma path_tail_name:
  "CHR ''/'' \<notin> set n \<Longrightarrow> n \<noteq> [] \<Longrightarrow> n \<noteq> ''.'' \<Longrightarrow> path_tail n = [n]"
  by (simp add: path_tail_def split_on_no_sep)

lemma path_name_plain:
  "CHR ''/'' \<notin> set n \<Longrightarrow> n \<noteq> [] \<Longrightarrow> n \<noteq> ''.'' \<Longrightarrow> path_name n = n"
  by (simp add: path_name_def path_tail_name)

lemma path_name_in_directory:
  assumes "CHR ''/'' \<notin> set n" and "n \<noteq> []" and "n \<noteq> ''.''"
  shows "path_name (d @ CHR ''/'' # n) = n"
proof -
  have "path_tail (d @ CHR ''/'' # n) = path_tail d @ [n]"
    using path_tail_name [OF assms]
    by (simp add: path_tail_def split_on_append_sep)
  then show ?thesis by (simp add: path_name_def)
qed

lemma rfind_append_dot:
  "c \<notin> set e \<Longrightarrow> rfind c (stem @ c # e) = Some (length stem)"
proof (induction stem)
  case Nil
  have "rfind c e = None" using Nil by (induction e) auto
  then show ?case by simp
next
  case (Cons x stem)
  then show ?case by simp
qed

lemma suffix_of_name:
  assumes "stem \<noteq> []" and "e \<noteq> []" and "CHR ''.'' \<notin> set e"
    and "path_name p = stem @ CHR ''.'' # e"
  shows "path_suffix p = CHR ''.'' # e"
  using assms by (simp add: path_suffix_def rfind_append_dot)

lemma extension_table_shape:
  "list_all (\<lambda>(ext, lang). take 1 ext = ''.'' \<and> drop 1 ext \<noteq> [] \<and>
                CHR ''.'' \<notin> set (drop 1 ext) \<and> CHR ''/'' \<notin> set (drop 1 ext) \<and>
                lower ext = ext \<and> extension_map ext = Some lang)
     extension_table"
  by code_simp

lemma extension_shape:
  assumes "(ext, lang) \<in> set extension_table"
  shows "\<exists>e. ext = CHR ''.'' # e \<and> e \<noteq> [] \<and> CHR ''.'' \<notin> set e \<and> CHR ''/'' \<notin> set e \<and>
             lower ext = ext \<and> extension_map ext = Some lang"
proof -
  from extension_table_shape assms
  have h: "take 1 ext = ''.''" "drop 1 ext \<noteq> []" "CHR ''.'' \<notin> set (drop 1 ext)"
    "CHR ''/'' \<notin> set (drop 1 ext)" "lower ext = ext" "extension_map ext = Some lang"
    unfolding list_all_iff by blast+
  from h(1) obtain e where "ext = CHR ''.'' # e"
    by (cases ext) auto
  with h show ?thesis by simp
qed

lemma named_file_language:
  assumes "(ext, lang) \<in> set extension_table"
    and "stem \<noteq> []" and "CHR ''/'' \<notin> set stem"
  shows "detect_language (stem @ ext) content = lang"
    and "detect_language (d @ CHR ''/'' # stem @ ext) content = lang"
proof -
  from extension_shape [OF assms(1)] obtain e where
    e: "ext = CHR ''.'' # e" "e \<noteq> []" "CHR ''.'' \<notin> set e" "CHR ''/'' \<notin> set e"
       "lower ext = ext" "extension_map ext = Some lang"
    by blast
  have n: "CHR ''/'' \<notin> set (stem @ ext)" "stem @ ext \<noteq> []" "stem @ ext \<noteq> ''.''"
    using assms(2,3) e(1,2,4) by (auto simp: append_eq_Cons_conv)
  have "path_suffix (stem @ ext) = ext"
    using suffix_of_name [OF assms(2) e(2) e(3), of "stem @ ext"] path_name_plain [OF n]
    by (simp add: e(1))
  then show "detect_language (stem @ ext) content = lang"
    by (simp add: detect_language_def e(5) e(6))
  have "path_suffix (d @ CHR ''/'' # stem @ ext) = ext"
    using suffix_of_name [OF assms(2) e(2) e(3), of "d @ CHR ''/'' # stem @ ext"]
      path_name_in_directory [OF n, of d]
    by (simp add: e(1))
  then show "detect_language (d @ CHR ''/'' # stem @ ext) content = lang"
    by (simp add: detect_language_def e(5) e(6))
qed

text \<open>
  Claim C8. When the lower-cased suffix of the file name is in the extension table,
  \<open>detect_language\<close> returns the language of that extension, whatever the content is.
\<close>

theorem detect_language_extension_wins:
  "extension_map (lower (path_suffix path)) = Some lang \<Longrightarrow> detect_language path content = lang"
  by (simp add: detect_language_def)

theorem detect_language_extension_wins_witness:
  "extension_map (lower (path_suffix ''src/Main.PY'')) = Some ''python'' \<and>
   detect_language ''src/Main.PY'' (Some ''package main'') = ''python''"
proof -
  have h: "extension_map (lower (path_suffix ''src/Main.PY'')) = Some ''python''"
    by code_simp
  show ?thesis using h detect_language_extension_wins [OF h] by simp
qed

section \<open>The statistics\<close>

text \<open>
  Claim C3, as amended. After \<open>fix_file_content\<close> on a file whose language is
  recognised, the statistics are updated: one more file processed, the fixes of the
  result added to the total, the success rate recomputed as the total of fixes per
  file processed times 100, and the average recomputed by the incremental mean. On a
  file whose language is unknown the fixer, and so the statistics, are left as they
  were.
\<close>

theorem statistics_updated_for_known_language:
  "(detect_language path (Some content) \<noteq> ''unknown'' \<longrightarrow>
      files_processed (stats (snd (fix_file_content env fx t0 t1 path content)))
        = files_processed (stats fx) + 1 \<and>
      total_fixes (stats (snd (fix_file_content env fx t0 t1 path content)))
        = total_fixes (stats fx)
          + length (fixes_applied (fst (fix_file_content env fx t0 t1 path content))) \<and>
      success_rate (stats (snd (fix_file_content env fx t0 t1 path content)))
        = real (total_fixes (stats (snd (fix_file_content env fx t0 t1 path content))))
          / real (files_processed (stats (snd (fix_file_content env fx t0 t1 path content)))) * 100 \<and>
      avg_processing_time (stats (snd (fix_file_content env fx t0 t1 path content)))
        = (avg_processing_time (stats fx) * real (files_processed (stats fx)) + (t1 - t0) * 1000)
          / real (files_processed (stats fx) + 1)) \<and>
   (detect_language path (Some content) = ''unknown'' \<longrightarrow>
      snd (fix_file_content env fx t0 t1 path content) = fx)"
  by (simp add: fix_file_content_stats unknown_language_keeps_fixer update_stats_fields)

theorem statistics_updated_for_known_language_witness:
  "detect_language ''main.go'' (Some go_import) \<noteq> ''unknown'' \<and>
   files_processed (stats (snd (fix_file_content no_tools init_fixer 0 1 ''main.go'' go_import))) = 1 \<and>
   total_fixes (stats (snd (fix_file_content no_tools init_fixer 0 1 ''main.go'' go_import))) = 1 \<and>
   success_rate (stats (snd (fix_file_content no_tools init_fixer 0 1 ''main.go'' go_import))) = 100 \<and>
   avg_processing_time (stats (snd (fix_file_content no_tools init_fixer 0 1 ''main.go'' go_import)))
     = 1000 \<and>
   detect_language ''notes.txt'' (Some ''hello world'') = ''unknown'' \<and>
   snd (fix_file_content no_tools init_fixer 0 1 ''notes.txt'' ''hello world'') = init_fixer"
proof -
  have z: "stats init_fixer = init_stats" "files_processed init_stats = 0"
    "total_fixes init_stats = 0" "avg_processing_time init_stats = 0"
    by (simp_all add: init_fixer_def init_stats_def)
  show ?thesis
    using statistics_updated_for_known_language
            [of "''main.go''" go_import no_tools init_fixer 0 1]
          statistics_updated_for_known_language
            [of "''notes.txt''" "''hello world''" no_tools init_fixer 0 1]
    by (simp add: go_lang notes_unknown go_result z)
qed

text \<open>
  The claim as it was stated fails on a file of unknown language: the counter of
  processed files is not incremented.
\<close>

theorem unknown_language_skips_statistics:
  "files_processed (stats (snd (fix_file_content no_tools init_fixer 0 1 ''notes.txt'' ''hello world'')))
     = files_processed (stats init_fixer) \<and>
   stats (snd (fix_file_content no_tools init_fixer 0 1 ''notes.txt'' ''hello world''))
     = stats init_fixer"
  by (simp add: unknown_language_keeps_fixer notes_unknown)

section \<open>The batch\<close>

lemma prepare_length:
  "length (fst (prepare benv ps)) + length (snd (prepare benv ps)) = length ps"
  by (induction ps) (auto split: prod.splits sum.splits)

lemma prepare_unreadable:
  "p \<in> set ps \<Longrightarrow> read_text benv p = Inl e \<Longrightarrow>
   failure (path_str p) (''Cannot read file: '' @ e) \<in> set (snd (prepare benv ps))"
  by (induction ps) (auto split: prod.splits sum.splits)

lemma prepare_readable:
  "p \<in> set ps \<Longrightarrow> read_text benv p = Inr content \<Longrightarrow>
   (path_str p, content) \<in> set (fst (prepare benv ps))"
  by (induction ps) (auto split: prod.splits sum.splits)

lemma gather_Cons_fst:
  "fst (gather env benv fx ((p, content) # tasks)) =
     (case task_fault benv p of
        Some e \<Rightarrow> Inl e # fst (gather env benv fx tasks)
      | None \<Rightarrow>
          Inr (fst (fix_file_content env fx (fst (clock benv p)) (snd (clock benv p)) p content))
          # fst (gather env benv
                   (snd (fix_file_content env fx (fst (clock benv p)) (snd (clock benv p)) p content))
                   tasks))"
  by (simp split: prod.splits option.splits)

lemma gather_length: "length (fst (gather env benv fx tasks)) = length tasks"
proof (induction tasks arbitrary: fx)
  case Nil
  show ?case by simp
next
  case (Cons t tasks)
  obtain q c where t: "t = (q, c)" by (cases t) auto
  show ?case
    unfolding t gather_Cons_fst by (simp add: Cons.IH split: option.splits)
qed

lemma gather_fault:
  "(p, content) \<in> set tasks \<Longrightarrow> task_fault benv p = Some e \<Longrightarrow>
   Inl e \<in> set (fst (gather env benv fx tasks))"
proof (induction tasks arbitrary: fx)
  case Nil
  then show ?case by simp
next
  case (Cons t tasks)
  obtain q c where t: "t = (q, c)" by (cases t) auto
  show ?case
  proof (cases "q = p")
    case True
    with Cons.prems(2) show ?thesis
      unfolding t gather_Cons_fst by simp
  next
    case False
    with Cons.prems t have "(p, content) \<in> set tasks" by simp
    from Cons.IH [OF this Cons.prems(2)] show ?thesis
      unfolding t gather_Cons_fst by (simp split: option.splits)
  qed
qed

lemma gather_result:
  "(p, content) \<in> set tasks \<Longrightarrow> task_fault benv p = None \<Longrightarrow>
   p \<in> file_path ` {r. Inr r \<in> set (fst (gather env benv fx tasks))}"
proof (induction tasks arbitrary: fx)
  case Nil
  then show ?case by simp
next
  case (Cons t tasks)
  obtain q c where t: "t = (q, c)" by (cases t) auto
  show ?case
  proof (cases "q = p")
    case True
    have "file_path (fst (fix_file_content env fx (fst (clock benv p)) (snd (clock benv p)) p c)) = p"
      by (rule fix_file_content_path)
    with Cons.prems(2) True show ?thesis
      unfolding t gather_Cons_fst by (auto simp: image_iff)
  next
    case False
    with Cons.prems t have "(p, content) \<in> set tasks" by simp
    from Cons.IH [OF this Cons.prems(2)] show ?thesis
      unfolding t gather_Cons_fst by (auto simp: image_iff split: option.splits)
  qed
qed

text \<open>
  In the batch every task whose language is recognised, and that no exception ends,
  is counted by the statistics.
\<close>

lemma gather_Cons_snd:
  "snd (gather env benv fx ((p, content) # tasks)) =
     (case task_fault benv p of
        Some e \<Rightarrow> snd (gather env benv fx tasks)
      | None \<Rightarrow>
          snd (gather env benv
                 (snd (fix_file_content env fx (fst (clock benv p)) (snd (clock benv p)) p content))
                 tasks))"
  by (simp split: prod.splits option.splits)

lemma gather_files_processed:
  "list_all (\<lambda>(p, content). detect_language p (Some content) \<noteq> ''unknown'') tasks \<Longrightarrow>
   files_processed (stats (snd (gather env benv fx tasks))) =
     files_processed (stats fx) + length (filter (\<lambda>(p, content). task_fault benv p = None) tasks)"
proof (induction tasks arbitrary: fx)
  case Nil
  show ?case by simp
next
  case (Cons t tasks)
  obtain p content where t: "t = (p, content)" by (cases t) auto
  from Cons.prems t have k: "detect_language p (Some content) \<noteq> ''unknown''"
    and rest: "list_all (\<lambda>(p, content). detect_language p (Some content) \<noteq> ''unknown'') tasks"
    by simp_all
  show ?case
    unfolding t gather_Cons_snd
    by (simp add: Cons.IH [OF rest] fix_file_content_stats [OF k] update_stats_fields
        split: option.splits)
qed

text \<open>
  When the check of the root and the discovery return, and there is no file to process,
  \<open>fix_repository\<close> returns one failure result and leaves the fixer as it was. When
  either raises, \<open>fix_repository\<close> raises.
\<close>

lemma fix_repository_sentinel:
  "path_exists benv repo_path = Inr False \<Longrightarrow>
   fix_repository env benv fx repo_path =
     Inr ([failure (path_str repo_path) ''Repository path does not exist''], fx)"
  "path_exists benv repo_path = Inr True \<Longrightarrow> discover benv repo_path = Inr [] \<Longrightarrow>
   fix_repository env benv fx repo_path =
     Inr ([failure (path_str repo_path) ''No supported files found''], fx)"
  by (simp_all add: fix_repository_def)

lemma fix_repository_raises:
  "path_exists benv repo_path = Inl e \<Longrightarrow> fix_repository env benv fx repo_path = Inl e"
  "path_exists benv repo_path = Inr True \<Longrightarrow> discover benv repo_path = Inl e \<Longrightarrow>
   fix_repository env benv fx repo_path = Inl e"
  by (simp_all add: fix_repository_def)

lemma docs_sentinel:
  "fix_repository no_tools demo_tree init_fixer ''docs'' =
     Inr ([failure ''docs'' ''No supported files found''], init_fixer)"
proof -
  have "path_exists demo_tree ''docs'' = Inr True" by code_simp
  moreover have "path_str ''docs'' = ''docs''" by code_simp
  ultimately show ?thesis
    using fix_repository_sentinel(2) [OF _ discover_docs, of no_tools init_fixer] by simp
qed

lemma long_root_check: "path_exists demo_tree long_root = Inl ''File name too long''"
  by code_simp

text \<open>
  Claim C6. For a root that does not exist, \<open>fix_repository\<close> should return one failure
  result and raise nothing. The code does not keep to this for every such root. The
  root whose name is 300 times the letter a cannot exist, its name being longer than a
  file name may be; the check of its existence does not answer no, it raises the error
  of the file system, nothing in \<open>fix_repository\<close> catches it, and \<open>fix_repository\<close>
  raises it in place of returning the failure result.
\<close>

theorem missing_root_raises:
  "path_exists demo_tree long_root = Inl ''File name too long'' \<and>
   fix_repository no_tools demo_tree init_fixer long_root = Inl ''File name too long''"
  by (simp add: long_root_check fix_repository_raises(1))

text \<open>
  Claim C5. When the root exists and files are discovered under it, \<open>fix_repository\<close>
  returns as many results as files were discovered, and every discovered file is
  accounted for: a file that cannot be read by its failure result, a file whose task
  ended with an exception by the failure result made from that exception, and any other
  file by a result that carries its path.
\<close>

theorem fix_repository_one_result_per_file:
  assumes "path_exists benv repo_path = Inr True"
    and "discover benv repo_path = Inr files" and "files \<noteq> []"
  shows "\<exists>results fx'.
           fix_repository env benv fx repo_path = Inr (results, fx') \<and>
           length results = length files \<and>
           list_all (accounted benv results) files"
proof -
  obtain tasks results where prep: "prepare benv files = (tasks, results)"
    by (cases "prepare benv files") auto
  obtain outcomes fx' where gat: "gather env benv fx tasks = (outcomes, fx')"
    by (cases "gather env benv fx tasks") auto
  have res: "\<exists>fx''. fix_repository env benv fx repo_path
                      = Inr (results @ map collect outcomes, fx'')"
  proof (cases "tasks = []")
    case True
    then have "outcomes = []" using gat by simp
    with True assms prep show ?thesis by (simp add: fix_repository_def)
  next
    case False
    with assms prep gat show ?thesis by (simp add: fix_repository_def)
  qed
  have len: "length tasks + length results = length files"
    using prepare_length [of benv files] prep by simp
  have lo: "length outcomes = length tasks"
    using gather_length [of env benv fx tasks] gat by simp
  have acc: "accounted benv (results @ map collect outcomes) f" if f: "f \<in> set files" for f
  proof (cases "read_text benv f")
    case (Inl e)
    from prepare_unreadable [OF f Inl] prep show ?thesis
      by (simp add: accounted_def Inl)
  next
    case (Inr content)
    from prepare_readable [OF f Inr] prep have t: "(path_str f, content) \<in> set tasks" by simp
    show ?thesis
    proof (cases "task_fault benv (path_str f)")
      case (Some e)
      from gather_fault [OF t Some, of env fx] gat have "Inl e \<in> set outcomes" by simp
      then have "collect (Inl e) \<in> set (map collect outcomes)" by simp
      then show ?thesis by (simp add: accounted_def Inr Some collect_def)
    next
      case None
      from gather_result [OF t None, of env fx] gat
      obtain r where r: "Inr r \<in> set outcomes" "file_path r = path_str f" by auto
      from r(1) have "collect (Inr r) \<in> collect ` set outcomes" by (rule imageI)
      then have "r \<in> set (map collect outcomes)" by (simp add: collect_def)
      then have "file_path r \<in> file_path ` set (map collect outcomes)" by (rule imageI)
      with r(2) show ?thesis by (auto simp: accounted_def Inr None image_Un image_image)
    qed
  qed
  from res obtain fx'' where
    "fix_repository env benv fx repo_path = Inr (results @ map collect outcomes, fx'')"
    by blast
  moreover have "length (results @ map collect outcomes) = length files"
    using len lo by simp
  moreover have "list_all (accounted benv (results @ map collect outcomes)) files"
    using acc by (simp add: list_all_iff)
  ultimately show ?thesis by blast
qed

theorem fix_repository_one_result_per_file_witness:
  "path_exists demo_tree ''repo'' = Inr True \<and>
   discover demo_tree ''repo'' = Inr [''repo/a.py'', ''repo/src/b.js'', ''repo/c.go''] \<and>
   (\<exists>results fx'.
      fix_repository no_tools demo_tree init_fixer ''repo'' = Inr (results, fx') \<and>
      length results = 3 \<and>
      failure ''repo/src/b.js'' ''Cannot read file: invalid start byte'' \<in> set results \<and>
      failure ''unknown'' ''Processing error: boom'' \<in> set results)"
proof -
  have a: "path_exists demo_tree ''repo'' = Inr True"
    by code_simp
  have r: "read_text demo_tree ''repo/src/b.js'' = Inl ''invalid start byte''"
    "read_text demo_tree ''repo/c.go'' = Inr ''x = 1''"
    "task_fault demo_tree ''repo/c.go'' = Some ''boom''"
    by (simp_all add: demo_tree_def)
  have s: "path_str ''repo/src/b.js'' = ''repo/src/b.js''" "path_str ''repo/c.go'' = ''repo/c.go''"
    by code_simp+
  from fix_repository_one_result_per_file [OF a discover_repo, of no_tools init_fixer]
  obtain results fx' where
    "fix_repository no_tools demo_tree init_fixer ''repo'' = Inr (results, fx')"
    "length results = 3"
    "list_all (accounted demo_tree results) [''repo/a.py'', ''repo/src/b.js'', ''repo/c.go'']"
    by auto
  then show ?thesis
    using a discover_repo by (auto simp: accounted_def r s)
qed

end
